theory Spec2Isabelle
  imports Complex_Main "HOL-Library.AList"
begin

section \<open>Python values and exceptions\<close>

text \<open>
  The exceptions the modelled code of \<^verbatim>\<open>tasks.py\<close> and \<^verbatim>\<open>lib/financials.py\<close> can raise.
  Python floats are idealised as real numbers throughout.
\<close>

datatype exn =
    ZeroDivisionError
  | AttributeError
  | TypeError
  | UnboundLocalError
  | KeyError string
  | PyException string
  | QgsProcessingException string

section \<open>lib/financials.py\<close>


text \<open>\<^verbatim>\<open>a / b\<close> on floats.\<close>

definition py_truediv :: "real \<Rightarrow> real \<Rightarrow> exn + real" where
  "py_truediv a b = (if b = 0 then Inl ZeroDivisionError else Inr (a / b))"


section \<open>tasks.py: extent alignment\<close>

text \<open>\<^verbatim>\<open>QgsRectangle(xMin, yMin, xMax, yMax)\<close>\<close>

record rect =
  xMinimum :: real
  yMinimum :: real
  xMaximum :: real
  yMaximum :: real

text \<open>What \<^verbatim>\<open>align_extent\<close> reads of a \<^verbatim>\<open>QgsRasterLayer\<close>.\<close>

record raster_layer =
  layer_extent :: rect
  rasterUnitsPerPixelX :: real
  rasterUnitsPerPixelY :: real

text \<open>\<^verbatim>\<open>math.floor(a / b)\<close> and \<^verbatim>\<open>math.ceil(a / b)\<close>\<close>

definition floor_div :: "real \<Rightarrow> real \<Rightarrow> exn + int" where
  "floor_div a b = (case py_truediv a b of Inl e \<Rightarrow> Inl e | Inr q \<Rightarrow> Inr \<lfloor>q\<rfloor>)"

definition ceil_div :: "real \<Rightarrow> real \<Rightarrow> exn + int" where
  "ceil_div a b = (case py_truediv a b of Inl e \<Rightarrow> Inl e | Inr q \<Rightarrow> Inr \<lceil>q\<rceil>)"

text \<open>The body of the \<^verbatim>\<open>try\<close> block of \<^verbatim>\<open>align_extent\<close>.\<close>

definition align_extent_try :: "raster_layer \<Rightarrow> rect \<Rightarrow> exn + rect" where
  "align_extent_try raster_layer target_extent =
     (let raster_extent = layer_extent raster_layer;
          x_res = rasterUnitsPerPixelX raster_layer;
          y_res = rasterUnitsPerPixelY raster_layer
      in case floor_div (xMinimum target_extent - xMinimum raster_extent) x_res of
           Inl e \<Rightarrow> Inl e
         | Inr fl \<Rightarrow>
      (case ceil_div (xMaximum target_extent - xMinimum raster_extent) x_res of
           Inl e \<Rightarrow> Inl e
         | Inr cr \<Rightarrow>
      (case floor_div (yMinimum target_extent - yMinimum raster_extent) y_res of
           Inl e \<Rightarrow> Inl e
         | Inr fb \<Rightarrow>
      (case floor_div (yMaximum raster_extent - yMaximum target_extent) y_res of
           Inl e \<Rightarrow> Inl e
         | Inr ft \<Rightarrow>
           Inr \<lparr> xMinimum = xMinimum raster_extent + x_res * of_int fl,
                 yMinimum = yMinimum raster_extent + y_res * of_int fb,
                 xMaximum = xMinimum raster_extent + x_res * of_int cr,
                 yMaximum = yMaximum raster_extent - y_res * of_int ft \<rparr>))))"

text \<open>Any exception is logged and the original extent is returned.\<close>

definition align_extent :: "raster_layer \<Rightarrow> rect \<Rightarrow> rect" where
  "align_extent raster_layer target_extent =
     (case align_extent_try raster_layer target_extent of
        Inl e \<Rightarrow> target_extent
      | Inr snapped \<Rightarrow> snapped)"

section \<open>tasks.py: data model\<close>

type_synonym path = string

text \<open>An NCS pathway object. Pathway objects live in a store and are referred to by address,
  since every stage overwrites \<^verbatim>\<open>pathway.path\<close> in place and models share pathways.\<close>

record pathway =
  pw_uuid :: string
  pw_name :: string
  pw_path :: path
  carbon_paths :: "path list"

text \<open>An entry of \<^verbatim>\<open>model.priority_layers\<close> (a dict with the keys uuid, name and path).\<close>

record priority_layer =
  pl_uuid :: string
  pl_name :: string
  pl_path :: "path option"

text \<open>An implementation model (activity). \<^verbatim>\<open>path\<close> is \<^verbatim>\<open>None\<close> or a string;
  \<^verbatim>\<open>pathways\<close> holds addresses of pathway objects.\<close>

record model =
  m_uuid :: string
  m_name :: string
  m_path :: "path option"
  m_pathways :: "nat list"
  priority_layers :: "priority_layer option list option"
  style_pixel_value :: int

text \<open>A priority weighting layer of the settings, with the coefficients of its groups.\<close>

record settings_layer =
  sl_name :: string
  sl_groups :: "real list"

text \<open>The calls that reach the raster engine: \<^verbatim>\<open>utils.align_rasters\<close> and
  \<^verbatim>\<open>processing.run\<close> with its algorithm and the parameters that vary.\<close>

datatype op =
    AlignRasters path path
  | GdalTranslate path
  | GdalWarp path real path
  | RasterCalculator string "path list" path
  | CellStatistics "path list" real "path option" path
  | HighestPosition "path list" real "path option" path

text \<open>
  Everything outside \<^verbatim>\<open>tasks.py\<close> that the task consults: the file system, the raster
  providers, the settings manager, \<^verbatim>\<open>utils.align_rasters\<close> (\<^verbatim>\<open>None\<close> for a failed
  alignment) and the outcome of \<^verbatim>\<open>processing.run\<close> (\<open>Inl\<close> when it raises, otherwise
  \<^verbatim>\<open>results["OUTPUT"]\<close>). \<open>new_file dir name\<close> stands for the output file built from the
  scenario directory, the cleaned name and a fresh uuid; \<open>final_file p\<close> for
  \<^verbatim>\<open>{stem}_final.tif\<close> beside \<open>p\<close>; \<open>fmt_float\<close> for the formatting of a float in an
  f-string.
\<close>

record env =
  path_exists :: "path \<Rightarrow> bool"
  is_file :: "path \<Rightarrow> bool"
  stem :: "path \<Rightarrow> string"
  new_file :: "string \<Rightarrow> string \<Rightarrow> path"
  final_file :: "path \<Rightarrow> path"
  scenario_file :: path
  fmt_float :: "real \<Rightarrow> string"
  raster_info :: "path \<Rightarrow> raster_layer"
  layer_authid :: "path \<Rightarrow> string"
  band_statistics :: "path \<Rightarrow> exn + real \<times> real"
  source_nodata :: "path \<Rightarrow> exn + real"
  align_rasters :: "path \<Rightarrow> path \<Rightarrow> path option"
  processing_run :: "op \<Rightarrow> exn + path"
  carbon_coefficient :: real
  suitability_index :: real
  snapping_enabled :: bool
  snap_layer_setting :: path
  get_priority_layer :: "string \<Rightarrow> priority_layer option"
  get_implementation_model :: "string \<Rightarrow> priority_layer option list option"
  get_priority_layers :: "settings_layer list"

text \<open>
  The fields of \<^verbatim>\<open>ScenarioAnalysisTask\<close>. \<open>canceled\<close> is the flag of the base class
  \<^verbatim>\<open>QgsTask\<close> that its \<^verbatim>\<open>cancel()\<close> sets; the class does not override \<^verbatim>\<open>cancel\<close>,
  never assigns \<^verbatim>\<open>processing_cancelled\<close> after the constructor and never reads the
  base-class flag. \<open>ops\<close> records the raster operations launched, in order.
\<close>

record task =
  analysis_implementation_models :: "model list"
  analysis_priority_layers_groups :: "(string \<times> string) list list"
  analysis_extent :: rect
  store :: "nat \<Rightarrow> pathway"
  analysis_weighted_ims :: "model list option"
  processing_cancelled :: bool
  canceled :: bool
  error :: "exn option"
  status_message :: "string option"
  info_message :: "string option"
  task_output :: "path option"
  ops :: "op list"

text \<open>What a method hands back: \<^verbatim>\<open>True\<close>/\<^verbatim>\<open>False\<close>, \<^verbatim>\<open>None\<close> (a bare
  \<^verbatim>\<open>return\<close>), or the pair of \<^verbatim>\<open>run_models_weighting\<close>.\<close>

datatype pyret = RBool bool | RNone | RTuple "model list option" bool

text \<open>What \<^verbatim>\<open>run_models_cleaning\<close> receives as \<^verbatim>\<open>models\<close>.\<close>

datatype pyarg = PModels "model list" | PStr string | PNone

text \<open>How a loop body or a \<^verbatim>\<open>try\<close> block ends.\<close>

datatype 'r flow = Next | Return 'r | Raise exn

fun for_each :: "('a \<Rightarrow> 's \<Rightarrow> 'r flow \<times> 's) \<Rightarrow> 'a list \<Rightarrow> 's \<Rightarrow> 'r flow \<times> 's" where
  "for_each body [] s = (Next, s)"
| "for_each body (x # xs) s =
     (case body x s of
        (Next, s') \<Rightarrow> for_each body xs s'
      | (Return r, s') \<Rightarrow> (Return r, s')
      | (Raise e, s') \<Rightarrow> (Raise e, s'))"

definition set_status_message :: "string \<Rightarrow> task \<Rightarrow> task" where
  "set_status_message message t = t\<lparr>status_message := Some message\<rparr>"

definition set_info_message :: "string \<Rightarrow> task \<Rightarrow> task" where
  "set_info_message message t = t\<lparr>info_message := Some message\<rparr>"

text \<open>\<^verbatim>\<open>QgsTask.cancel()\<close>\<close>

definition cancel :: "task \<Rightarrow> task" where
  "cancel t = t\<lparr>canceled := True\<rparr>"

definition launch :: "op \<Rightarrow> task \<Rightarrow> task" where
  "launch c t = t\<lparr>ops := ops t @ [c]\<rparr>"

text \<open>The \<^verbatim>\<open>except Exception as e\<close> clause shared by the stages.\<close>

definition record_failure :: "exn \<Rightarrow> task \<Rightarrow> task" where
  "record_failure e t = cancel (t\<lparr>error := Some e\<rparr>)"

section \<open>tasks.py: strings and expressions\<close>

definition dquote :: string where
  "dquote = [CHR 0x22]"

text \<open>\<^verbatim>\<open>"{name}@1"\<close> with its double quotes.\<close>

definition band_ref :: "string \<Rightarrow> string" where
  "band_ref name = dquote @ name @ ''@1'' @ dquote"

text \<open>\<^verbatim>\<open>sep.join(xs)\<close>\<close>

fun join :: "string \<Rightarrow> string list \<Rightarrow> string" where
  "join sep [] = []"
| "join sep [x] = x"
| "join sep (x # y # ys) = x @ sep @ join sep (y # ys)"

definition digit_char :: "nat \<Rightarrow> char" where
  "digit_char d = char_of (48 + d)"

text \<open>The decimal digits of an int in an f-string, for a non-negative int.\<close>

function show_nat :: "nat \<Rightarrow> string" where
  "show_nat n = (if n < 10 then [digit_char n] else show_nat (n div 10) @ [digit_char (n mod 10)])"
  by pat_completeness auto
termination
  by (relation "measure id") auto

definition no_layer_message :: "string \<Rightarrow> string" where
  "no_layer_message name =
     ''No defined model pathways or a model layer for the model '' @ name"

text \<open>\<^verbatim>\<open>not model.pathways and (model.path is None or model.path is "")\<close>\<close>

definition no_pathways_or_path :: "model \<Rightarrow> bool" where
  "no_pathways_or_path m = (m_pathways m = [] \<and> (m_path m = None \<or> m_path m = Some ''''))"

text \<open>\<^verbatim>\<open>pathway in pathways\<close>\<close>

definition pathway_in :: "(nat \<Rightarrow> pathway) \<Rightarrow> nat \<Rightarrow> nat list \<Rightarrow> bool" where
  "pathway_in h p ps = list_ex (\<lambda>q. q = p \<or> pw_uuid (h q) = pw_uuid (h p)) ps"

definition add_pathways :: "(nat \<Rightarrow> pathway) \<Rightarrow> nat list \<Rightarrow> nat list \<Rightarrow> nat list" where
  "add_pathways h new ps = fold (\<lambda>p acc. if pathway_in h p acc then acc else acc @ [p]) new ps"

text \<open>
  The first loop of the snapping, combination and pathway normalization stages: the
  pathways of all models without repetition and the models' own layers, or the name of the
  first model that has neither.
\<close>

fun collect_pathways ::
  "(nat \<Rightarrow> pathway) \<Rightarrow> model list \<Rightarrow> nat list \<Rightarrow> path list \<Rightarrow> string + nat list \<times> path list" where
  "collect_pathways h [] pathways models_paths = Inr (pathways, models_paths)"
| "collect_pathways h (m # ms) pathways models_paths =
     (if no_pathways_or_path m then Inl (m_name m)
      else collect_pathways h ms (add_pathways h (m_pathways m) pathways)
             (case m_path m of
                None \<Rightarrow> models_paths
              | Some p \<Rightarrow> if p = '''' then models_paths else models_paths @ [p]))"

section \<open>tasks.py: snapping\<close>

text \<open>
  \<^verbatim>\<open>replace_nodata(layer_path, output_path, nodata_value)\<close>: a \<^verbatim>\<open>gdal:translate\<close> into a
  temporary output, then a \<^verbatim>\<open>gdal:warpreproject\<close> of that output with
  \<^verbatim>\<open>"NODATA": -9999\<close>.
\<close>

definition replace_nodata :: "env \<Rightarrow> path \<Rightarrow> path \<Rightarrow> real \<Rightarrow> task \<Rightarrow> (exn + bool) \<times> task" where
  "replace_nodata E layer_path output_path nodata_value t =
     (let t1 = launch (GdalTranslate layer_path) t
      in case processing_run E (GdalTranslate layer_path) of
           Inl e \<Rightarrow> (Inl e, t1)
         | Inr translate_output \<Rightarrow>
             (let t2 = launch (GdalWarp translate_output (- 9999) output_path) t1
              in case processing_run E (GdalWarp translate_output (- 9999) output_path) of
                   Inl e \<Rightarrow> (Inl e, t2)
                 | Inr outputs \<Rightarrow> (Inr True, t2)))"

text \<open>
  \<^verbatim>\<open>snap_layer\<close>: \<^verbatim>\<open>output_path\<close> is only assigned when \<^verbatim>\<open>align_rasters\<close> gave a
  result, so the final \<^verbatim>\<open>return output_path\<close> raises \<^verbatim>\<open>UnboundLocalError\<close> otherwise.
\<close>

definition snap_layer :: "env \<Rightarrow> path \<Rightarrow> path \<Rightarrow> real \<Rightarrow> task \<Rightarrow> (exn + path) \<times> task" where
  "snap_layer E input_path reference_path nodata_value t =
     (let t1 = launch (AlignRasters input_path reference_path) t
      in case align_rasters E input_path reference_path of
           None \<Rightarrow> (Inl UnboundLocalError, t1)
         | Some input_result_path \<Rightarrow>
             (let output_path = final_file E input_result_path
              in case replace_nodata E input_result_path output_path nodata_value t1 of
                   (Inl e, t2) \<Rightarrow> (Inl e, t2)
                 | (Inr ok, t2) \<Rightarrow> (Inr output_path, t2)))"

text \<open>The loop over \<^verbatim>\<open>pathway.carbon_paths\<close>, building \<^verbatim>\<open>snapped_carbon_paths\<close>.\<close>

fun snap_carbon_paths ::
  "env \<Rightarrow> path \<Rightarrow> path list \<Rightarrow> path list \<Rightarrow> task \<Rightarrow> (exn + path list) \<times> task" where
  "snap_carbon_paths E reference_layer_path [] snapped_carbon_paths t = (Inr snapped_carbon_paths, t)"
| "snap_carbon_paths E reference_layer_path (carbon_path # rest) snapped_carbon_paths t =
     (case source_nodata E carbon_path of
        Inl e \<Rightarrow> (Inl e, t)
      | Inr nodata_value_carbon \<Rightarrow>
          (case snap_layer E carbon_path reference_layer_path nodata_value_carbon t of
             (Inl e, t') \<Rightarrow> (Inl e, t')
           | (Inr carbon_output_path, t') \<Rightarrow>
               snap_carbon_paths E reference_layer_path rest
                 (snapped_carbon_paths @
                    [if carbon_output_path \<noteq> '''' then carbon_output_path else carbon_path]) t'))"

text \<open>The body of the loop over the pathways in \<^verbatim>\<open>snap_analysis_data\<close>.\<close>

definition snap_pathway :: "env \<Rightarrow> nat \<Rightarrow> task \<Rightarrow> pyret flow \<times> task" where
  "snap_pathway E p t =
     (case source_nodata E (pw_path (store t p)) of
        Inl e \<Rightarrow> (Raise e, t)
      | Inr nodata_value \<Rightarrow>
          if processing_cancelled t then (Return (RBool False), t)
          else
            (case (if carbon_paths (store t p) \<noteq> []
                   then (case snap_carbon_paths E (snap_layer_setting E) (carbon_paths (store t p)) [] t of
                           (Inl e, t') \<Rightarrow> (Inl e, t')
                         | (Inr snapped, t') \<Rightarrow>
                             (Inr True, t'\<lparr>store := (store t')(p := (store t' p)\<lparr>carbon_paths := snapped\<rparr>)\<rparr>))
                   else (Inr True, t)) of
               (Inl e, t1) \<Rightarrow> (Raise e, t1)
             | (Inr ok, t1) \<Rightarrow>
                 (case snap_layer E (pw_path (store t1 p)) (snap_layer_setting E) nodata_value t1 of
                    (Inl e, t2) \<Rightarrow> (Raise e, t2)
                  | (Inr output_path, t2) \<Rightarrow>
                      if output_path \<noteq> ''''
                      then (Next, t2\<lparr>store := (store t2)(p := (store t2 p)\<lparr>pw_path := output_path\<rparr>)\<rparr>)
                      else (Next, t2))))"

text \<open>The loop over \<^verbatim>\<open>model.priority_layers\<close>, building the new list.\<close>

fun snap_priority_layers ::
  "env \<Rightarrow> priority_layer option list \<Rightarrow> priority_layer option list \<Rightarrow> task
     \<Rightarrow> (exn + priority_layer option list) \<times> task" where
  "snap_priority_layers E [] acc t = (Inr acc, t)"
| "snap_priority_layers E (None # rest) acc t = snap_priority_layers E rest acc t"
| "snap_priority_layers E (Some priority_layer # rest) acc t =
     (case get_priority_layer E (pl_uuid priority_layer) of
        None \<Rightarrow> snap_priority_layers E rest acc t
      | Some priority_layer_settings \<Rightarrow>
          (case pl_path priority_layer_settings of
             None \<Rightarrow> (Inl TypeError, t)
           | Some priority_layer_path \<Rightarrow>
               if \<not> path_exists E priority_layer_path
               then snap_priority_layers E rest (acc @ [Some priority_layer]) t
               else
                 (case source_nodata E priority_layer_path of
                    Inl e \<Rightarrow> (Inl e, t)
                  | Inr nodata_value_priority \<Rightarrow>
                      (case snap_layer E priority_layer_path (snap_layer_setting E)
                              nodata_value_priority t of
                         (Inl e, t') \<Rightarrow> (Inl e, t')
                       | (Inr priority_output_path, t') \<Rightarrow>
                           snap_priority_layers E rest
                             (acc @ [Some (if priority_output_path \<noteq> ''''
                                           then priority_layer\<lparr>pl_path := Some priority_output_path\<rparr>
                                           else priority_layer)]) t'))))"

text \<open>The body of the second loop over the models in \<^verbatim>\<open>snap_analysis_data\<close>; the logged
  \<^verbatim>\<open>len(model.priority_layers)\<close> raises for \<^verbatim>\<open>None\<close>.\<close>

definition snap_model_priority_layers :: "env \<Rightarrow> nat \<Rightarrow> task \<Rightarrow> pyret flow \<times> task" where
  "snap_model_priority_layers E i t =
     (let model = analysis_implementation_models t ! i
      in case priority_layers model of
           None \<Rightarrow> (Raise TypeError, t)
         | Some pls \<Rightarrow>
             if pls \<noteq> [] then
               (case snap_priority_layers E pls [] t of
                  (Inl e, t') \<Rightarrow> (Raise e, t')
                | (Inr new_layers, t') \<Rightarrow>
                    (Next, t'\<lparr>analysis_implementation_models :=
                        (analysis_implementation_models t')
                          [i := (analysis_implementation_models t' ! i)\<lparr>priority_layers := Some new_layers\<rparr>]\<rparr>))
             else (Next, t))"

definition snap_analysis_data_try :: "env \<Rightarrow> task \<Rightarrow> pyret flow \<times> task" where
  "snap_analysis_data_try E t =
     (case collect_pathways (store t) (analysis_implementation_models t) [] [] of
        Inl name \<Rightarrow> (Return (RBool False), set_info_message (no_layer_message name) t)
      | Inr (pathways, models_paths) \<Rightarrow>
          (case for_each (snap_pathway E) pathways t of
             (Next, t1) \<Rightarrow>
               for_each (snap_model_priority_layers E)
                 [0..<length (analysis_implementation_models t1)] t1
           | (Return r, t1) \<Rightarrow> (Return r, t1)
           | (Raise e, t1) \<Rightarrow> (Raise e, t1)))"

definition snap_analysis_data :: "env \<Rightarrow> string \<Rightarrow> task \<Rightarrow> pyret \<times> task" where
  "snap_analysis_data E extent t =
     (if processing_cancelled t then (RBool False, t)
      else
        (case snap_analysis_data_try E
                (set_status_message
                   ''Snapping the selected models pathways, carbon layers and priority layers'' t) of
           (Next, t') \<Rightarrow> (RBool True, t')
         | (Return r, t') \<Rightarrow> (r, t')
         | (Raise e, t') \<Rightarrow> (RBool False, record_failure e t')))"

section \<open>tasks.py: model aggregation\<close>

text \<open>
  The body of the loop of \<^verbatim>\<open>run_models_analysis\<close>. Its guard reads
  \<^verbatim>\<open>not model.pathways and (model.path is None and model.path is "")\<close>.
\<close>

definition models_analysis_model :: "env \<Rightarrow> nat \<Rightarrow> task \<Rightarrow> pyret flow \<times> task" where
  "models_analysis_model E i t =
     (let model = analysis_implementation_models t ! i
      in if m_pathways model = [] \<and> (m_path model = None \<and> m_path model = Some '''')
         then (Return (RBool False), set_info_message (no_layer_message (m_name model)) t)
         else
           (let output_file = new_file E ''implementation_models'' (m_name model);
                layers = (case m_path model of
                            None \<Rightarrow> []
                          | Some p \<Rightarrow> if p = '''' then [] else [p])
                         @ map (\<lambda>pathway. pw_path (store t pathway)) (m_pathways model);
                alg = CellStatistics layers (- 9999)
                        (case layers of [] \<Rightarrow> None | l # ls \<Rightarrow> Some l) output_file
            in if processing_cancelled t then (Return (RBool False), t)
               else
                 (case processing_run E alg of
                    Inl e \<Rightarrow> (Raise e, launch alg t)
                  | Inr out \<Rightarrow>
                      (Next, (launch alg t)\<lparr>analysis_implementation_models :=
                         (analysis_implementation_models t)[i := model\<lparr>m_path := Some out\<rparr>]\<rparr>))))"

definition run_models_analysis :: "env \<Rightarrow> string \<Rightarrow> task \<Rightarrow> pyret \<times> task" where
  "run_models_analysis E extent t =
     (if processing_cancelled t then (RBool False, t)
      else
        (case for_each (models_analysis_model E)
                [0..<length (analysis_implementation_models t)]
                (set_status_message ''Creating implementation models layers from pathways'' t) of
           (Next, t') \<Rightarrow> (RBool True, t')
         | (Return r, t') \<Rightarrow> (r, t')
         | (Raise e, t') \<Rightarrow> (RBool False, record_failure e t')))"

section \<open>tasks.py: normalization\<close>

text \<open>The expression of both normalization stages.\<close>

definition normalization_expression :: "env \<Rightarrow> string \<Rightarrow> real \<Rightarrow> real \<Rightarrow> string" where
  "normalization_expression E layer_name min_value max_value =
     (let normalization_index = carbon_coefficient E + suitability_index E
      in if 0 < normalization_index
         then '' '' @ fmt_float E normalization_index @ '' * ('' @ band_ref layer_name @ '' - ''
                @ fmt_float E min_value @ '') / ('' @ fmt_float E max_value @ '' - ''
                @ fmt_float E min_value @ '')''
         else ''('' @ band_ref layer_name @ '' - '' @ fmt_float E min_value @ '') / (''
                @ fmt_float E max_value @ '' - '' @ fmt_float E min_value @ '')'')"

text \<open>The body of the loop over the pathways in \<^verbatim>\<open>run_pathways_normalization\<close>.\<close>

definition normalize_pathway :: "env \<Rightarrow> nat \<Rightarrow> task \<Rightarrow> pyret flow \<times> task" where
  "normalize_pathway E p t =
     (let pathway = store t p;
          output_file = new_file E ''normalized_pathways'' (pw_name pathway)
      in case band_statistics E (pw_path pathway) of
           Inl e \<Rightarrow> (Raise e, t)
         | Inr (min_value, max_value) \<Rightarrow>
             if max_value < min_value
             then (Raise (PyException ''Pathway contains invalid minimum and maxmum band values''), t)
             else
               (let alg = RasterCalculator
                            (normalization_expression E (stem E (pw_path pathway)) min_value max_value)
                            [pw_path pathway] output_file
                in if processing_cancelled t then (Return (RBool False), t)
                   else
                     (case processing_run E alg of
                        Inl e \<Rightarrow> (Raise e, launch alg t)
                      | Inr out \<Rightarrow>
                          (Next, (launch alg t)\<lparr>store := (store t)(p := pathway\<lparr>pw_path := out\<rparr>)\<rparr>))))"

definition run_pathways_normalization_try :: "env \<Rightarrow> string \<Rightarrow> task \<Rightarrow> pyret flow \<times> task" where
  "run_pathways_normalization_try E extent t =
     (case collect_pathways (store t) (analysis_implementation_models t) [] [] of
        Inl name \<Rightarrow> (Return (RBool False), set_info_message (no_layer_message name) t)
      | Inr (pathways, models_paths) \<Rightarrow>
          if pathways = [] \<and> 0 < length models_paths
          then (Return RNone, snd (run_models_analysis E extent t))
          else for_each (normalize_pathway E) pathways t)"

definition run_pathways_normalization :: "env \<Rightarrow> string \<Rightarrow> task \<Rightarrow> pyret \<times> task" where
  "run_pathways_normalization E extent t =
     (if processing_cancelled t then (RBool False, t)
      else
        (case run_pathways_normalization_try E extent
                (set_status_message ''Normalization of pathways'' t) of
           (Next, t') \<Rightarrow> (RBool True, t')
         | (Return r, t') \<Rightarrow> (r, t')
         | (Raise e, t') \<Rightarrow> (RBool False, record_failure e t')))"

text \<open>The body of the loop of \<^verbatim>\<open>run_models_normalization\<close>.\<close>

definition normalize_model :: "env \<Rightarrow> nat \<Rightarrow> task \<Rightarrow> pyret flow \<times> task" where
  "normalize_model E i t =
     (let model = analysis_implementation_models t ! i
      in case (case m_path model of None \<Rightarrow> None | Some p \<Rightarrow> if p = '''' then None else Some p) of
           None \<Rightarrow>
             (Return (RBool False),
              if \<not> processing_cancelled t
              then set_info_message
                     (''Problem when running models normalization, there is no map layer for the model ''
                        @ m_name model) t
              else set_info_message ''Processing has been cancelled by the user.'' t)
         | Some path \<Rightarrow>
             (let output_file = new_file E ''normalized_ims'' (m_name model)
              in case band_statistics E path of
                   Inl e \<Rightarrow> (Raise e, t)
                 | Inr (min_value, max_value) \<Rightarrow>
                     (let alg = RasterCalculator
                                  (normalization_expression E (stem E path) min_value max_value)
                                  [path] output_file
                      in if processing_cancelled t then (Return (RBool False), t)
                         else
                           (case processing_run E alg of
                              Inl e \<Rightarrow> (Raise e, launch alg t)
                            | Inr out \<Rightarrow>
                                (Next, (launch alg t)\<lparr>analysis_implementation_models :=
                                   (analysis_implementation_models t)[i := model\<lparr>m_path := Some out\<rparr>]\<rparr>)))))"

definition run_models_normalization :: "env \<Rightarrow> string \<Rightarrow> task \<Rightarrow> pyret \<times> task" where
  "run_models_normalization E extent t =
     (if processing_cancelled t then (RBool False, t)
      else
        (case for_each (normalize_model E)
                [0..<length (analysis_implementation_models t)]
                (set_status_message ''Normalization of the implementation models'' t) of
           (Next, t') \<Rightarrow> (RBool True, t')
         | (Return r, t') \<Rightarrow> (r, t')
         | (Raise e, t') \<Rightarrow> (RBool False, record_failure e t')))"

section \<open>tasks.py: pathway combination\<close>

text \<open>The carbon layers of a pathway whose files exist.\<close>

definition existing_carbon_paths :: "env \<Rightarrow> pathway \<Rightarrow> path list" where
  "existing_carbon_paths E pathway = filter (path_exists E) (carbon_paths pathway)"

text \<open>\<^verbatim>\<open>basenames\<close> as it stands when \<^verbatim>\<open>expression\<close> is joined, for a pathway with carbon
  layers. The divisor of the average is \<^verbatim>\<open>len(pathway.carbon_paths)\<close>.\<close>

definition combination_basenames :: "env \<Rightarrow> pathway \<Rightarrow> string list" where
  "combination_basenames E pathway =
     (let path_basename = stem E (pw_path pathway);
          carbon_names = map (\<lambda>carbon_path. band_ref (stem E carbon_path))
                           (existing_carbon_paths E pathway)
      in [if 0 < suitability_index E
          then fmt_float E (suitability_index E) @ '' * '' @ band_ref path_basename
          else band_ref path_basename]
         @ (if length carbon_names = 1 \<and> 0 < carbon_coefficient E
            then [fmt_float E (carbon_coefficient E) @ '' * ('' @ hd carbon_names @ '')'']
            else [])
         @ (if 1 < length carbon_names \<and> 0 < carbon_coefficient E
            then [fmt_float E (carbon_coefficient E) @ '' * ('' @
                    ''('' @ join '' + '' carbon_names @ '') / '' @
                    show_nat (length (carbon_paths pathway)) @ '')'']
            else []))"

definition combination_expression :: "env \<Rightarrow> pathway \<Rightarrow> string" where
  "combination_expression E pathway = join '' + '' (combination_basenames E pathway)"

text \<open>The body of the loop over the pathways in \<^verbatim>\<open>run_pathways_analysis\<close>.\<close>

definition combine_pathway :: "env \<Rightarrow> string \<Rightarrow> nat \<Rightarrow> task \<Rightarrow> pyret flow \<times> task" where
  "combine_pathway E extent p t =
     (let pathway = store t p
      in if length (carbon_paths pathway) \<le> 0 then (Next, t)
         else
           (let output_file = new_file E ''pathways_carbon_layers'' (pw_name pathway);
                alg = RasterCalculator (combination_expression E pathway)
                        (pw_path pathway # existing_carbon_paths E pathway) output_file
            in if carbon_coefficient E \<le> 0 \<and> suitability_index E \<le> 0
               then (Return RNone, snd (run_pathways_normalization E extent t))
               else if processing_cancelled t then (Return (RBool False), t)
               else
                 (case processing_run E alg of
                    Inl e \<Rightarrow> (Raise e, launch alg t)
                  | Inr out \<Rightarrow>
                      (Next, (launch alg t)\<lparr>store := (store t)(p := pathway\<lparr>pw_path := output_file\<rparr>)\<rparr>))))"

definition run_pathways_analysis_try :: "env \<Rightarrow> string \<Rightarrow> task \<Rightarrow> pyret flow \<times> task" where
  "run_pathways_analysis_try E extent t =
     (case collect_pathways (store t) (analysis_implementation_models t) [] [] of
        Inl name \<Rightarrow> (Return (RBool False), set_info_message (no_layer_message name) t)
      | Inr (pathways, models_paths) \<Rightarrow>
          if pathways = [] \<and> 0 < length models_paths
          then (Return RNone, snd (run_pathways_normalization E extent t))
          else for_each (combine_pathway E extent) pathways t)"

text \<open>The \<^verbatim>\<open>except\<close> clause of \<^verbatim>\<open>run_pathways_analysis\<close> has no \<^verbatim>\<open>return\<close>: control
  falls through to the final \<^verbatim>\<open>return True\<close>.\<close>

definition run_pathways_analysis :: "env \<Rightarrow> string \<Rightarrow> task \<Rightarrow> pyret \<times> task" where
  "run_pathways_analysis E extent t =
     (if processing_cancelled t then (RBool False, t)
      else
        (case run_pathways_analysis_try E extent
                (set_status_message ''Adding models pathways with carbon layers'' t) of
           (Next, t') \<Rightarrow> (RBool True, t')
         | (Return r, t') \<Rightarrow> (r, t')
         | (Raise e, t') \<Rightarrow> (RBool True, record_failure e t')))"

section \<open>tasks.py: cleaning\<close>

text \<open>The body of the loop of \<^verbatim>\<open>run_models_cleaning\<close> over a list of models; the state is
  the list (whose models are updated in place) and the task.\<close>

definition clean_model :: "env \<Rightarrow> nat \<Rightarrow> model list \<times> task \<Rightarrow> pyret flow \<times> model list \<times> task" where
  "clean_model E i s =
     (let models = fst s; t = snd s; model = models ! i
      in case (case m_path model of None \<Rightarrow> None | Some p \<Rightarrow> if p = '''' then None else Some p) of
           None \<Rightarrow>
             (Return (RBool False), models,
              set_info_message
                (''Problem when running models updates, there is no map layer for the model ''
                   @ m_name model) t)
         | Some path \<Rightarrow>
             (let output_file = new_file E ''weighted_ims_cleaned'' (m_name model);
                  alg = CellStatistics [path] 0 (Some path) output_file
              in if processing_cancelled t then (Return (RBool False), models, t)
                 else
                   (case processing_run E alg of
                      Inl e \<Rightarrow> (Raise e, models, launch alg t)
                    | Inr out \<Rightarrow> (Next, models[i := model\<lparr>m_path := Some out\<rparr>], launch alg t))))"

text \<open>
  The \<^verbatim>\<open>try\<close> block of \<^verbatim>\<open>run_models_cleaning\<close> for what \<^verbatim>\<open>models\<close> may be: iterating
  \<^verbatim>\<open>None\<close> raises \<^verbatim>\<open>TypeError\<close>; iterating a string yields its characters, and the first
  \<^verbatim>\<open>model.path\<close> on a character raises \<^verbatim>\<open>AttributeError\<close>.
\<close>

definition run_models_cleaning_try :: "env \<Rightarrow> pyarg \<Rightarrow> task \<Rightarrow> pyret flow \<times> pyarg \<times> task" where
  "run_models_cleaning_try E models t =
     (case models of
        PNone \<Rightarrow> (Raise TypeError, PNone, t)
      | PStr s \<Rightarrow> (case s of [] \<Rightarrow> (Next, PStr s, t) | c # cs \<Rightarrow> (Raise AttributeError, PStr s, t))
      | PModels ms \<Rightarrow>
          (case for_each (clean_model E) [0..<length ms] (ms, t) of
             (r, ms', t') \<Rightarrow> (r, PModels ms', t')))"

definition run_models_cleaning :: "env \<Rightarrow> pyarg \<Rightarrow> string option \<Rightarrow> task \<Rightarrow> pyret \<times> pyarg \<times> task" where
  "run_models_cleaning E models extent t =
     (if processing_cancelled t then (RBool False, models, t)
      else
        (case run_models_cleaning_try E models
                (set_status_message ''Updating weighted implementation models values'' t) of
           (Next, models', t') \<Rightarrow> (RBool True, models', t')
         | (Return r, models', t') \<Rightarrow> (r, models', t')
         | (Raise e, models', t') \<Rightarrow> (RBool False, models', record_failure e t')))"

section \<open>tasks.py: weighting\<close>

text \<open>\<^verbatim>\<open>any(priority_layers_groups)\<close>: some group is a non-empty dict.\<close>

definition any_groups :: "(string \<times> string) list list \<Rightarrow> bool" where
  "any_groups priority_layers_groups = list_ex (\<lambda>g. g \<noteq> []) priority_layers_groups"

text \<open>The two innermost loops: every positive coefficient of a settings layer of the same
  name adds the layer (once) and a term.\<close>

definition add_group_terms ::
  "env \<Rightarrow> path \<Rightarrow> string \<Rightarrow> real list \<Rightarrow> path list \<times> string list \<Rightarrow> path list \<times> string list" where
  "add_group_terms E pwl path_basename groups acc =
     fold (\<lambda>coefficient (layers, basenames).
             if 0 < coefficient
             then ((if pwl \<in> set layers then layers else layers @ [pwl]),
                   basenames @ [''('' @ fmt_float E coefficient @ ''*'' @ band_ref path_basename @ '')''])
             else (layers, basenames))
          groups acc"

text \<open>The body of the loop over \<^verbatim>\<open>settings_model.priority_layers\<close>.\<close>

definition add_layer_terms ::
  "env \<Rightarrow> priority_layer option \<Rightarrow> path list \<times> string list \<Rightarrow> path list \<times> string list" where
  "add_layer_terms E layer acc =
     (case layer of
        None \<Rightarrow> acc
      | Some l \<Rightarrow>
          (case get_priority_layer E (pl_uuid l) of
             None \<Rightarrow> acc
           | Some settings_layer \<Rightarrow>
               (case pl_path settings_layer of
                  None \<Rightarrow> acc
                | Some pwl \<Rightarrow>
                    if \<not> path_exists E pwl then acc
                    else fold (\<lambda>priority_layer a.
                                 if sl_name priority_layer = pl_name l
                                 then add_group_terms E pwl (stem E pwl) (sl_groups priority_layer) a
                                 else a)
                              (get_priority_layers E) acc)))"

text \<open>
  The body of the loop of \<^verbatim>\<open>run_models_weighting\<close>; the state is \<^verbatim>\<open>weighted_models\<close> and
  the task. When no group is defined the code calls \<^verbatim>\<open>self.run_models_cleaning(extent)\<close>
  and leaves with a bare \<^verbatim>\<open>return\<close>. The tests \<^verbatim>\<open>model.priority_layers is []\<close> and
  \<^verbatim>\<open>basenames is []\<close> compare with a fresh list and are never true.
\<close>

definition weight_model ::
  "env \<Rightarrow> string \<Rightarrow> nat \<Rightarrow> model list \<times> task \<Rightarrow> pyret flow \<times> model list \<times> task" where
  "weight_model E extent i s =
     (let weighted_models = fst s; t = snd s;
          model = analysis_implementation_models t ! i
      in case (case m_path model of None \<Rightarrow> None | Some p \<Rightarrow> if p = '''' then None else Some p) of
           None \<Rightarrow>
             (Return (RTuple (Some []) False), weighted_models,
              set_info_message
                (''Problem when running models weighting, there is no map layer for the model ''
                   @ m_name model) t)
         | Some path \<Rightarrow>
             if \<not> any_groups (analysis_priority_layers_groups t)
             then (Return RNone, weighted_models,
                   snd (snd (run_models_cleaning E (PStr extent) None t)))
             else if priority_layers model = None then (Next, weighted_models, t)
             else
               (case get_implementation_model E (m_uuid model) of
                  None \<Rightarrow> (Raise AttributeError, weighted_models, t)
                | Some settings_priority_layers \<Rightarrow>
                    (let terms = fold (add_layer_terms E) settings_priority_layers
                                   ([path], [band_ref (stem E path)]);
                         output_file = new_file E ''weighted_ims'' (m_name model);
                         alg = RasterCalculator (join '' + '' (snd terms)) (fst terms) output_file
                     in if processing_cancelled t
                        then (Return (RTuple (Some []) False), weighted_models, t)
                        else
                          (case processing_run E alg of
                             Inl e \<Rightarrow> (Raise e, weighted_models, launch alg t)
                           | Inr out \<Rightarrow>
                               (Next, weighted_models @ [model\<lparr>m_path := Some out\<rparr>],
                                launch alg t)))))"

definition run_models_weighting :: "env \<Rightarrow> string \<Rightarrow> task \<Rightarrow> pyret \<times> task" where
  "run_models_weighting E extent t =
     (if processing_cancelled t then (RTuple (Some []) False, t)
      else
        (case for_each (weight_model E extent)
                [0..<length (analysis_implementation_models t)]
                ([], set_status_message ''Weighting implementation models'' t) of
           (Next, weighted_models, t') \<Rightarrow> (RTuple (Some weighted_models) True, t')
         | (Return r, weighted_models, t') \<Rightarrow> (r, t')
         | (Raise e, weighted_models, t') \<Rightarrow> (RTuple None False, record_failure e t')))"

section \<open>tasks.py: highest position\<close>

text \<open>The dict \<^verbatim>\<open>layers\<close>, from model name to layer source, in insertion order.\<close>

definition highest_position_layers :: "(nat \<Rightarrow> pathway) \<Rightarrow> model list \<Rightarrow> (string \<times> path) list" where
  "highest_position_layers h ims =
     fold (\<lambda>model layers.
             case (case m_path model of None \<Rightarrow> None | Some p \<Rightarrow> if p = '''' then None else Some p) of
               Some path \<Rightarrow> AList.update (m_name model) path layers
             | None \<Rightarrow> fold (\<lambda>pathway ls. AList.update (m_name model) (pw_path (h pathway)) ls)
                         (m_pathways model) layers)
          ims []"

text \<open>The positions of the models in \<^verbatim>\<open>sorted(..., key=style_pixel_value)\<close>, a stable sort.\<close>

definition sorted_positions :: "model list \<Rightarrow> nat list" where
  "sorted_positions ims = sort_key (\<lambda>i. style_pixel_value (ims ! i)) [0..<length ims]"

text \<open>\<^verbatim>\<open>model.style_pixel_value = index + 1\<close> over the sorted models.\<close>

fun renumber :: "nat list \<Rightarrow> nat \<Rightarrow> model list \<Rightarrow> model list" where
  "renumber [] index ims = ims"
| "renumber (i # rest) index ims =
     renumber rest (index + 1) (ims[i := (ims ! i)\<lparr>style_pixel_value := int index + 1\<rparr>])"

text \<open>\<^verbatim>\<open>sources\<close>: \<^verbatim>\<open>layers[model_name].source()\<close> for every sorted model name that is among
  the model names; a missing key raises.\<close>

fun layer_sources :: "(string \<times> path) list \<Rightarrow> string list \<Rightarrow> string list \<Rightarrow> exn + path list" where
  "layer_sources layers models_names [] = Inr []"
| "layer_sources layers models_names (model_name # rest) =
     (if model_name \<in> set models_names
      then (case map_of layers model_name of
              None \<Rightarrow> Inl (KeyError model_name)
            | Some source \<Rightarrow>
                (case layer_sources layers models_names rest of
                   Inl e \<Rightarrow> Inl e
                 | Inr sources \<Rightarrow> Inr (source # sources)))
      else layer_sources layers models_names rest)"

definition run_highest_position_analysis_try :: "env \<Rightarrow> task \<Rightarrow> pyret flow \<times> task" where
  "run_highest_position_analysis_try E t =
     (case analysis_weighted_ims t of
        None \<Rightarrow> (Raise TypeError, t)
      | Some ims \<Rightarrow>
          (let layers = highest_position_layers (store t) ims;
               models_names = map m_name ims;
               all_models = sorted_positions ims;
               t1 = t\<lparr>analysis_weighted_ims := Some (renumber all_models 0 ims)\<rparr>;
               all_models_names = map (\<lambda>i. m_name (ims ! i)) all_models
           in case layer_sources layers models_names all_models_names of
                Inl e \<Rightarrow> (Raise e, t1)
              | Inr sources \<Rightarrow>
                  (let alg = HighestPosition sources (- 9999)
                               (case layers of [] \<Rightarrow> None | kv # kvs \<Rightarrow> Some (snd kv))
                               (scenario_file E)
                   in if processing_cancelled t1 then (Return (RBool False), t1)
                      else
                        (case processing_run E alg of
                           Inl e \<Rightarrow> (Raise e, launch alg t1)
                         | Inr out \<Rightarrow> (Next, (launch alg t1)\<lparr>task_output := Some out\<rparr>)))))"

definition run_highest_position_analysis :: "env \<Rightarrow> task \<Rightarrow> pyret \<times> task" where
  "run_highest_position_analysis E t =
     (if processing_cancelled t then (RNone, t)
      else
        (case run_highest_position_analysis_try E
                (set_status_message ''Calculating the highest position'' t) of
           (Next, t') \<Rightarrow> (RBool True, t')
         | (Return r, t') \<Rightarrow> (r, t')
         | (Raise e, t') \<Rightarrow> (RBool False, record_failure e t')))"

section \<open>tasks.py: the run\<close>

text \<open>The search for \<^verbatim>\<open>selected_pathway\<close>: the first pathway of the first model that has one.\<close>

fun select_pathway :: "model list \<Rightarrow> nat option" where
  "select_pathway [] = None"
| "select_pathway (model # rest) =
     (case m_pathways model of [] \<Rightarrow> select_pathway rest | pathway # ps \<Rightarrow> Some pathway)"

definition extent_string_of :: "env \<Rightarrow> rect \<Rightarrow> string \<Rightarrow> string" where
  "extent_string_of E r authid =
     fmt_float E (xMinimum r) @ '','' @ fmt_float E (xMaximum r) @ '','' @
     fmt_float E (yMinimum r) @ '','' @ fmt_float E (yMaximum r) @ '' ['' @ authid @ '']''"

text \<open>
  The stages of \<^verbatim>\<open>run\<close> in their order, each definition being the rest of the method from
  one stage on. The value a stage returns is dropped, except for the pair of
  \<^verbatim>\<open>run_models_weighting\<close>, whose unpacking raises \<^verbatim>\<open>TypeError\<close> for \<^verbatim>\<open>None\<close>.
  The method ends with \<^verbatim>\<open>return True\<close>.
\<close>

definition run_from_highest_position :: "env \<Rightarrow> task \<Rightarrow> (exn + bool) \<times> task" where
  "run_from_highest_position E t = (Inr True, snd (run_highest_position_analysis E t))"

definition run_from_cleaning :: "env \<Rightarrow> string \<Rightarrow> model list option \<Rightarrow> task \<Rightarrow> (exn + bool) \<times> task" where
  "run_from_cleaning E extent_string weighted_models t =
     (case run_models_cleaning E
             (case weighted_models of None \<Rightarrow> PNone | Some ms \<Rightarrow> PModels ms)
             (Some extent_string) (t\<lparr>analysis_weighted_ims := weighted_models\<rparr>) of
        (r, models', t') \<Rightarrow>
          run_from_highest_position E
            (t'\<lparr>analysis_weighted_ims := (case models' of PModels ms \<Rightarrow> Some ms | _ \<Rightarrow> None)\<rparr>))"

definition run_from_weighting :: "env \<Rightarrow> string \<Rightarrow> task \<Rightarrow> (exn + bool) \<times> task" where
  "run_from_weighting E extent_string t =
     (case run_models_weighting E extent_string t of
        (RTuple weighted_models result, t') \<Rightarrow> run_from_cleaning E extent_string weighted_models t'
      | (r, t') \<Rightarrow> (Inl TypeError, t'))"

definition run_from_models_normalization :: "env \<Rightarrow> string \<Rightarrow> task \<Rightarrow> (exn + bool) \<times> task" where
  "run_from_models_normalization E extent_string t =
     run_from_weighting E extent_string (snd (run_models_normalization E extent_string t))"

definition run_from_models_analysis :: "env \<Rightarrow> string \<Rightarrow> task \<Rightarrow> (exn + bool) \<times> task" where
  "run_from_models_analysis E extent_string t =
     run_from_models_normalization E extent_string (snd (run_models_analysis E extent_string t))"

definition run_from_pathways_normalization :: "env \<Rightarrow> string \<Rightarrow> task \<Rightarrow> (exn + bool) \<times> task" where
  "run_from_pathways_normalization E extent_string t =
     run_from_models_analysis E extent_string (snd (run_pathways_normalization E extent_string t))"

definition run_from_pathways_analysis :: "env \<Rightarrow> string \<Rightarrow> task \<Rightarrow> (exn + bool) \<times> task" where
  "run_from_pathways_analysis E extent_string t =
     run_from_pathways_normalization E extent_string (snd (run_pathways_analysis E extent_string t))"

definition run_from_snapping :: "env \<Rightarrow> string \<Rightarrow> task \<Rightarrow> (exn + bool) \<times> task" where
  "run_from_snapping E extent_string t =
     run_from_pathways_analysis E extent_string
       (if snapping_enabled E \<and> path_exists E (snap_layer_setting E) \<and> is_file E (snap_layer_setting E)
        then snd (snap_analysis_data E extent_string t)
        else t)"

text \<open>\<^verbatim>\<open>run\<close>: without any pathway \<^verbatim>\<open>selected_pathway.path\<close> raises \<^verbatim>\<open>AttributeError\<close>.\<close>

definition run :: "env \<Rightarrow> task \<Rightarrow> (exn + bool) \<times> task" where
  "run E t =
     (case select_pathway (analysis_implementation_models t) of
        None \<Rightarrow> (Inl AttributeError, t)
      | Some selected_pathway \<Rightarrow>
          (let target_path = pw_path (store t selected_pathway);
               authid = (if target_path \<noteq> '''' then layer_authid E target_path else ''EPSG:4326'');
               snapped_extent = align_extent (raster_info E target_path) (analysis_extent t)
           in run_from_snapping E (extent_string_of E snapped_extent authid) t))"

section \<open>The carbon term as the specification words it\<close>

text \<open>
  Raster calculator expressions as terms, with the text the calculator is given
  (\<open>render\<close>) and the value at a pixel (\<open>eval\<close>, from the band values there).
\<close>

datatype rexpr =
    Band string
  | Coef real
  | Count nat
  | Plus rexpr rexpr
  | Times rexpr rexpr
  | Quot rexpr rexpr
  | Paren rexpr

fun render :: "(real \<Rightarrow> string) \<Rightarrow> rexpr \<Rightarrow> string" where
  "render f (Band name) = band_ref name"
| "render f (Coef c) = f c"
| "render f (Count n) = show_nat n"
| "render f (Plus a b) = render f a @ '' + '' @ render f b"
| "render f (Times a b) = render f a @ '' * '' @ render f b"
| "render f (Quot a b) = render f a @ '' / '' @ render f b"
| "render f (Paren a) = ''('' @ render f a @ '')''"

fun eval :: "(string \<Rightarrow> real) \<Rightarrow> rexpr \<Rightarrow> real" where
  "eval v (Band name) = v name"
| "eval v (Coef c) = c"
| "eval v (Count n) = real n"
| "eval v (Plus a b) = eval v a + eval v b"
| "eval v (Times a b) = eval v a * eval v b"
| "eval v (Quot a b) = eval v a / eval v b"
| "eval v (Paren a) = eval v a"

fun sum_of :: "rexpr \<Rightarrow> rexpr list \<Rightarrow> rexpr" where
  "sum_of e [] = e"
| "sum_of e (x # xs) = sum_of (Plus e x) xs"

text \<open>\<^verbatim>\<open>carbon_coefficient * (sum(carbon layers) / count)\<close> for the carbon layers named
  \<open>name # names\<close>.\<close>

definition carbon_average_term :: "real \<Rightarrow> string \<Rightarrow> string list \<Rightarrow> rexpr" where
  "carbon_average_term coefficient name names =
     Times (Coef coefficient)
       (Paren (Quot (Paren (sum_of (Band name) (map Band names))) (Count (Suc (length names)))))"

section \<open>Example inputs\<close>

text \<open>A small environment in which every file exists and every raster operation succeeds,
  returning its output file, and a task with one model that has one pathway with one
  carbon layer.\<close>

definition example_stem :: "path \<Rightarrow> string" where
  "example_stem p = takeWhile (\<lambda>c. c \<noteq> CHR ''.'') p"

definition example_fmt :: "real \<Rightarrow> string" where
  "example_fmt r =
     (if r = 0 then ''0.0'' else if r = 1 then ''1.0'' else if r = 2 then ''2.0''
      else if r = 3 then ''3.0'' else if r = 5 then ''5.0'' else ''x'')"

fun op_output :: "op \<Rightarrow> path" where
  "op_output (AlignRasters i r) = i"
| "op_output (GdalTranslate i) = ''translated.tif''"
| "op_output (GdalWarp i nodata out) = out"
| "op_output (RasterCalculator e ls out) = out"
| "op_output (CellStatistics ls nodata r out) = out"
| "op_output (HighestPosition ls nodata r out) = out"

definition example_env :: env where
  "example_env =
     \<lparr> path_exists = (\<lambda>p. True),
       is_file = (\<lambda>p. True),
       stem = example_stem,
       new_file = (\<lambda>dir name. dir @ ''/'' @ name @ ''.tif''),
       final_file = (\<lambda>p. example_stem p @ ''_final.tif''),
       scenario_file = ''scenario.tif'',
       fmt_float = example_fmt,
       raster_info = (\<lambda>p. \<lparr>layer_extent = \<lparr>xMinimum = 0, yMinimum = 0, xMaximum = 10, yMaximum = 10\<rparr>,
                            rasterUnitsPerPixelX = 1, rasterUnitsPerPixelY = 1\<rparr>),
       layer_authid = (\<lambda>p. ''EPSG:4326''),
       band_statistics = (\<lambda>p. Inr (0, 1)),
       source_nodata = (\<lambda>p. Inr 255),
       align_rasters = (\<lambda>i r. Some (''snapped_'' @ i)),
       processing_run = (\<lambda>c. Inr (op_output c)),
       carbon_coefficient = 0,
       suitability_index = 0,
       snapping_enabled = False,
       snap_layer_setting = ''reference.tif'',
       get_priority_layer = (\<lambda>u. None),
       get_implementation_model = (\<lambda>u. Some []),
       get_priority_layers = [] \<rparr>"

definition example_pathway :: pathway where
  "example_pathway =
     \<lparr> pw_uuid = ''u1'', pw_name = ''p1'', pw_path = ''p1.tif'', carbon_paths = [''c1.tif''] \<rparr>"

definition example_model :: model where
  "example_model =
     \<lparr> m_uuid = ''uA'', m_name = ''A'', m_path = None, m_pathways = [0],
       priority_layers = Some [], style_pixel_value = 0 \<rparr>"

definition example_task :: task where
  "example_task =
     \<lparr> analysis_implementation_models = [example_model],
       analysis_priority_layers_groups = [[(''name'', ''group'')]],
       analysis_extent = \<lparr>xMinimum = 1, yMinimum = 1, xMaximum = 5, yMaximum = 5\<rparr>,
       store = (\<lambda>a. example_pathway),
       analysis_weighted_ims = Some [],
       processing_cancelled = False,
       canceled = False,
       error = None,
       status_message = None,
       info_message = None,
       task_output = None,
       ops = [] \<rparr>"


text \<open>The raster calculator fails on the combination of the pathway with its carbon layer.\<close>

definition failing_combination_env :: env where
  "failing_combination_env =
     example_env\<lparr>carbon_coefficient := 2,
       processing_run := (\<lambda>c. if op_output c = ''pathways_carbon_layers/p1.tif''
                                then Inl (QgsProcessingException ''failed'')
                                else Inr (op_output c))\<rparr>"

text \<open>A model with no pathway and no layer of its own.\<close>

definition empty_model_task :: task where
  "empty_model_task =
     example_task\<lparr>analysis_implementation_models := [example_model\<lparr>m_pathways := []\<rparr>]\<rparr>"

text \<open>Band statistics with the maximum below the minimum, and a model that has its layer.\<close>

definition invalid_statistics_env :: env where
  "invalid_statistics_env = example_env\<lparr>band_statistics := (\<lambda>p. Inr (5, 3))\<rparr>"

definition aggregated_task :: task where
  "aggregated_task =
     example_task\<lparr>analysis_implementation_models := [example_model\<lparr>m_path := Some ''A.tif''\<rparr>]\<rparr>"

text \<open>No priority layer group at all.\<close>

definition no_groups_task :: task where
  "no_groups_task = example_task\<lparr>analysis_priority_layers_groups := []\<rparr>"

text \<open>Snapping switched on; in the second environment the alignment of the carbon layer
  \<^verbatim>\<open>c2.tif\<close> fails.\<close>

definition snapping_env :: env where
  "snapping_env = example_env\<lparr>snapping_enabled := True\<rparr>"

definition failing_alignment_env :: env where
  "failing_alignment_env =
     snapping_env\<lparr>align_rasters :=
       (\<lambda>i r. if i = ''c2.tif'' then None else Some (''snapped_'' @ i))\<rparr>"

text \<open>A pathway with two carbon layers, an environment in which the file of the second is
  missing, and band values 4 and 6.\<close>

definition two_carbon_pathway :: pathway where
  "two_carbon_pathway = example_pathway\<lparr>carbon_paths := [''c1.tif'', ''c2.tif'']\<rparr>"

definition two_carbon_task :: task where
  "two_carbon_task = example_task\<lparr>store := (\<lambda>a. two_carbon_pathway)\<rparr>"

definition coefficient_env :: env where
  "coefficient_env = example_env\<lparr>carbon_coefficient := 2\<rparr>"

definition missing_carbon_env :: env where
  "missing_carbon_env = coefficient_env\<lparr>path_exists := (\<lambda>p. p \<noteq> ''c2.tif'')\<rparr>"

definition example_values :: "string \<Rightarrow> real" where
  "example_values name = (if name = ''c1'' then 4 else 6)"

section \<open>Properties\<close>

subsection \<open>Extent alignment\<close>






subsection \<open>Discounted value\<close>



subsection \<open>Pathway combination: the carbon term\<close>

lemma join_append_head:
  "join sep ((a @ sep @ b) # rest) = a @ sep @ join sep (b # rest)"
  by (cases rest) simp_all

lemma render_sum_of:
  "render f (sum_of e es) = join '' + '' (render f e # map (render f) es)"
proof (induction es arbitrary: e)
  case Nil
  show ?case by simp
next
  case (Cons x xs)
  have "render f (sum_of e (x # xs)) = join '' + '' (render f (Plus e x) # map (render f) xs)"
    by (simp add: Cons.IH)
  also have "\<dots> = render f e @ '' + '' @ join '' + '' (render f x # map (render f) xs)"
    using join_append_head [of "'' + ''" "render f e" "render f x" "map (render f) xs"]
    by simp
  finally show ?case by simp
qed

lemma eval_sum_of:
  "eval v (sum_of e es) = eval v e + sum_list (map (eval v) es)"
  by (induction es arbitrary: e) simp_all

lemma existing_carbon_paths_all:
  "list_all (path_exists E) (carbon_paths pw) \<Longrightarrow> existing_carbon_paths E pw = carbon_paths pw"
  by (simp add: existing_carbon_paths_def list_all_iff)

text \<open>
  C8, as amended. For a pathway with more than one carbon layer, all of whose carbon layer
  files exist, and a positive carbon coefficient, the combination expression is the base
  term plus the term \<^verbatim>\<open>carbon_coefficient * ((sum of the carbon layers) / count)\<close>, whose
  value at a pixel is the coefficient times the mean of the carbon values there.
\<close>

theorem carbon_average_in_expression:
  assumes "list_all (path_exists E) (carbon_paths pw)"
    and "carbon_paths pw = c # cs" and "cs \<noteq> []"
    and "0 < carbon_coefficient E"
  shows "render (fmt_float E)
           (carbon_average_term (carbon_coefficient E) (stem E c) (map (stem E) cs))
           \<in> set (combination_basenames E pw)
       \<and> combination_expression E pw =
           (if 0 < suitability_index E
            then fmt_float E (suitability_index E) @ '' * '' @ band_ref (stem E (pw_path pw))
            else band_ref (stem E (pw_path pw))) @ '' + '' @
           render (fmt_float E)
             (carbon_average_term (carbon_coefficient E) (stem E c) (map (stem E) cs))
       \<and> eval v (carbon_average_term (carbon_coefficient E) (stem E c) (map (stem E) cs)) =
           carbon_coefficient E *
             (sum_list (map v (map (stem E) (carbon_paths pw))) / real (length (carbon_paths pw)))"
proof -
  let ?t = "carbon_average_term (carbon_coefficient E) (stem E c) (map (stem E) cs)"
  let ?b = "if 0 < suitability_index E
            then fmt_float E (suitability_index E) @ '' * '' @ band_ref (stem E (pw_path pw))
            else band_ref (stem E (pw_path pw))"
  have ex: "existing_carbon_paths E pw = c # cs"
    using assms(1,2) existing_carbon_paths_all by simp
  have names: "map (\<lambda>carbon_path. band_ref (stem E carbon_path)) cs
             = map (render (fmt_float E)) (map Band (map (stem E) cs))"
    by (simp add: comp_def)
  have r: "render (fmt_float E) ?t =
        fmt_float E (carbon_coefficient E) @ '' * ('' @
          ''('' @ join '' + '' (map (\<lambda>carbon_path. band_ref (stem E carbon_path)) (c # cs)) @ '') / '' @
          show_nat (length (carbon_paths pw)) @ '')''"
    unfolding carbon_average_term_def using assms(2)
    by (simp add: render_sum_of names del: show_nat.simps)
  have bn: "combination_basenames E pw = [?b, render (fmt_float E) ?t]"
    unfolding r using assms(3,4) ex assms(2)
    by (cases cs) (simp_all add: combination_basenames_def Let_def del: show_nat.simps)
  have "eval v ?t = carbon_coefficient E *
             (sum_list (map v (map (stem E) (carbon_paths pw))) / real (length (carbon_paths pw)))"
    unfolding carbon_average_term_def using assms(2)
    by (simp add: eval_sum_of comp_def)
  with bn show ?thesis by (simp add: combination_expression_def)
qed

theorem carbon_average_in_expression_witness:
  "list_all (path_exists coefficient_env) (carbon_paths two_carbon_pathway)
   \<and> carbon_paths two_carbon_pathway = [''c1.tif'', ''c2.tif'']
   \<and> 0 < carbon_coefficient coefficient_env
   \<and> combination_expression coefficient_env two_carbon_pathway =
       band_ref ''p1'' @ '' + 2.0 * (('' @ band_ref ''c1'' @ '' + '' @ band_ref ''c2'' @ '') / 2)''
   \<and> eval example_values
       (carbon_average_term (carbon_coefficient coefficient_env)
          (stem coefficient_env ''c1.tif'') (map (stem coefficient_env) [''c2.tif''])) = 10"
proof -
  have h1: "list_all (path_exists coefficient_env) (carbon_paths two_carbon_pathway)"
    by code_simp
  have h2: "carbon_paths two_carbon_pathway = ''c1.tif'' # [''c2.tif'']"
    by code_simp
  have h3: "[''c2.tif''] \<noteq> []"
    by simp
  have h4: "0 < carbon_coefficient coefficient_env"
    by code_simp
  have v: "carbon_coefficient coefficient_env *
             (sum_list (map example_values (map (stem coefficient_env) (carbon_paths two_carbon_pathway)))
               / real (length (carbon_paths two_carbon_pathway))) = 10"
    by code_simp
  have e: "combination_expression coefficient_env two_carbon_pathway =
       band_ref ''p1'' @ '' + 2.0 * (('' @ band_ref ''c1'' @ '' + '' @ band_ref ''c2'' @ '') / 2)''"
    by code_simp
  from carbon_average_in_expression [OF h1 h2 h3 h4, of example_values]
  have "eval example_values
       (carbon_average_term (carbon_coefficient coefficient_env)
          (stem coefficient_env ''c1.tif'') (map (stem coefficient_env) [''c2.tif''])) = 10"
    unfolding v by blast
  with h1 h2 h4 e show ?thesis by simp
qed

text \<open>
  C8 as stated fails where a carbon layer file is missing: with two carbon layers of
  which only the first exists, the expression carries the single-layer term and no
  average.
\<close>

theorem carbon_average_missing_file_counterexample:
  "1 < length (carbon_paths two_carbon_pathway)
   \<and> 0 < carbon_coefficient missing_carbon_env
   \<and> render (fmt_float missing_carbon_env)
       (carbon_average_term (carbon_coefficient missing_carbon_env) ''c1'' [''c2''])
       \<notin> set (combination_basenames missing_carbon_env two_carbon_pathway)
   \<and> combination_expression missing_carbon_env two_carbon_pathway =
       band_ref ''p1'' @ '' + 2.0 * ('' @ band_ref ''c1'' @ '')''"
  by code_simp

subsection \<open>Cancellation\<close>








subsection \<open>A failing stage\<close>

text \<open>
  C1. The raster calculator raises while the pathway is combined with its carbon layer.
  \<^verbatim>\<open>run_pathways_analysis\<close> records the exception and calls \<^verbatim>\<open>cancel()\<close>, which leaves
  \<^verbatim>\<open>processing_cancelled\<close> unset; the run goes on, every later stage launches its raster
  operation, and \<^verbatim>\<open>run\<close> returns \<^verbatim>\<open>True\<close>.
\<close>

theorem failed_combination_run_goes_on:
  "processing_run failing_combination_env
       (RasterCalculator (combination_expression failing_combination_env example_pathway)
          [''p1.tif'', ''c1.tif''] ''pathways_carbon_layers/p1.tif'')
     = Inl (QgsProcessingException ''failed'')
   \<and> error (snd (run_pathways_analysis failing_combination_env ''extent'' example_task))
     = Some (QgsProcessingException ''failed'')
   \<and> canceled (snd (run_pathways_analysis failing_combination_env ''extent'' example_task))
   \<and> \<not> processing_cancelled (snd (run_pathways_analysis failing_combination_env ''extent'' example_task))
   \<and> map op_output (ops (snd (run failing_combination_env example_task)))
     = [''pathways_carbon_layers/p1.tif'', ''normalized_pathways/p1.tif'',
        ''implementation_models/A.tif'', ''normalized_ims/A.tif'', ''weighted_ims/A.tif'',
        ''weighted_ims_cleaned/A.tif'', ''scenario.tif'']
   \<and> fst (run failing_combination_env example_task) = Inr True"
  by code_simp

subsection \<open>Model aggregation without layers\<close>

text \<open>
  C3. For a model with no pathway and no layer the guard of \<^verbatim>\<open>run_models_analysis\<close> does
  not fire: the stage sets no message and launches the cell statistics with an empty
  input. The same model makes \<^verbatim>\<open>run_pathways_normalization\<close> stop with the message.
\<close>

theorem empty_model_reaches_cell_statistics:
  "no_pathways_or_path (example_model\<lparr>m_pathways := []\<rparr>)
   \<and> fst (run_pathways_normalization example_env ''extent'' empty_model_task) = RBool False
   \<and> info_message (snd (run_pathways_normalization example_env ''extent'' empty_model_task))
     = Some (no_layer_message ''A'')
   \<and> ops (snd (run_pathways_normalization example_env ''extent'' empty_model_task)) = []
   \<and> fst (run_models_analysis example_env ''extent'' empty_model_task) = RBool True
   \<and> info_message (snd (run_models_analysis example_env ''extent'' empty_model_task)) = None
   \<and> error (snd (run_models_analysis example_env ''extent'' empty_model_task)) = None
   \<and> ops (snd (run_models_analysis example_env ''extent'' empty_model_task))
     = [CellStatistics [] (- 9999) None ''implementation_models/A.tif'']"
  by code_simp

subsection \<open>Snapping\<close>

lemma replace_nodata_ignores_nodata_value:
  "replace_nodata E layer_path output_path nodata_value t =
   replace_nodata E layer_path output_path other_value t"
  unfolding replace_nodata_def by (rule refl)

lemma snap_layer_ignores_nodata_value:
  "snap_layer E input_path reference_path nodata_value t =
   snap_layer E input_path reference_path other_value t"
  unfolding snap_layer_def replace_nodata_def by (rule refl)

text \<open>
  C4. The layers of the example have the no-data value 255. Snapping them warps each
  resampled layer with the no-data value -9999.
\<close>

theorem snapped_layers_get_fixed_nodata:
  "source_nodata snapping_env ''c1.tif'' = Inr 255
   \<and> source_nodata snapping_env ''p1.tif'' = Inr 255
   \<and> fst (snap_analysis_data snapping_env ''extent'' example_task) = RBool True
   \<and> ops (snd (snap_analysis_data snapping_env ''extent'' example_task))
     = [AlignRasters ''c1.tif'' ''reference.tif'',
        GdalTranslate ''snapped_c1.tif'',
        GdalWarp ''translated.tif'' (- 9999) ''snapped_c1_final.tif'',
        AlignRasters ''p1.tif'' ''reference.tif'',
        GdalTranslate ''snapped_p1.tif'',
        GdalWarp ''translated.tif'' (- 9999) ''snapped_p1_final.tif'']"
  by code_simp

text \<open>
  C7. The alignment of the second carbon layer fails. \<^verbatim>\<open>snap_layer\<close> raises
  \<^verbatim>\<open>UnboundLocalError\<close>; the stage records it, calls \<^verbatim>\<open>cancel()\<close> and returns
  \<^verbatim>\<open>False\<close>. The snapped first carbon layer is dropped and the pathway layer is never
  snapped.
\<close>

theorem failed_alignment_aborts_snapping:
  "align_rasters failing_alignment_env ''c2.tif'' ''reference.tif'' = None
   \<and> fst (snap_analysis_data failing_alignment_env ''extent'' two_carbon_task) = RBool False
   \<and> error (snd (snap_analysis_data failing_alignment_env ''extent'' two_carbon_task))
     = Some UnboundLocalError
   \<and> canceled (snd (snap_analysis_data failing_alignment_env ''extent'' two_carbon_task))
   \<and> ops (snd (snap_analysis_data failing_alignment_env ''extent'' two_carbon_task))
     = [AlignRasters ''c1.tif'' ''reference.tif'',
        GdalTranslate ''snapped_c1.tif'',
        GdalWarp ''translated.tif'' (- 9999) ''snapped_c1_final.tif'',
        AlignRasters ''c2.tif'' ''reference.tif'']
   \<and> store (snd (snap_analysis_data failing_alignment_env ''extent'' two_carbon_task)) 0
     = two_carbon_pathway"
  by code_simp

subsection \<open>Normalization with invalid statistics\<close>

text \<open>
  C5. With band statistics whose maximum is below the minimum, the pathway normalization
  raises, records the error and launches nothing; the model normalization builds the
  expression from the same statistics, launches the raster calculator and returns
  \<^verbatim>\<open>True\<close>.
\<close>

theorem invalid_statistics_only_checked_for_pathways:
  "band_statistics invalid_statistics_env ''p1.tif'' = Inr (5, 3)
   \<and> fst (run_pathways_normalization invalid_statistics_env ''extent'' example_task) = RBool False
   \<and> error (snd (run_pathways_normalization invalid_statistics_env ''extent'' example_task))
     = Some (PyException ''Pathway contains invalid minimum and maxmum band values'')
   \<and> ops (snd (run_pathways_normalization invalid_statistics_env ''extent'' example_task)) = []
   \<and> band_statistics invalid_statistics_env ''A.tif'' = Inr (5, 3)
   \<and> fst (run_models_normalization invalid_statistics_env ''extent'' aggregated_task) = RBool True
   \<and> error (snd (run_models_normalization invalid_statistics_env ''extent'' aggregated_task)) = None
   \<and> ops (snd (run_models_normalization invalid_statistics_env ''extent'' aggregated_task))
     = [RasterCalculator (''('' @ band_ref ''A'' @ '' - 5.0) / (3.0 - 5.0)'')
          [''A.tif''] ''normalized_ims/A.tif'']"
  by code_simp

subsection \<open>Weighting without priority layer groups\<close>

text \<open>
  C6. With no priority layer group, \<^verbatim>\<open>run_models_weighting\<close> calls
  \<^verbatim>\<open>run_models_cleaning\<close> with the extent string as its models, which records an
  \<^verbatim>\<open>AttributeError\<close> and calls \<^verbatim>\<open>cancel()\<close>, and then returns \<^verbatim>\<open>None\<close>; \<^verbatim>\<open>run\<close> fails to
  unpack it and raises \<^verbatim>\<open>TypeError\<close>. No model is cleaned and the highest position stage
  never runs.
\<close>

theorem no_groups_run_raises:
  "\<not> any_groups (analysis_priority_layers_groups no_groups_task)
   \<and> fst (run example_env no_groups_task) = Inl TypeError
   \<and> error (snd (run example_env no_groups_task)) = Some AttributeError
   \<and> canceled (snd (run example_env no_groups_task))
   \<and> map op_output (ops (snd (run example_env no_groups_task)))
     = [''normalized_pathways/p1.tif'', ''normalized_pathways/p1.tif'',
        ''implementation_models/A.tif'', ''normalized_ims/A.tif'']
   \<and> task_output (snd (run example_env no_groups_task)) = None"
  by code_simp

end
